theory Spec2Isabelle
  imports Complex_Main "HOL-Library.Sublist"
begin

section \<open>Strings and numbers of the runtime\<close>

text \<open>
  The service is TypeScript on Node. A string of the program is modelled by \<^typ>\<open>string\<close>:
  each \<^typ>\<open>char\<close> stands for one code unit in the range U+0000 .. U+00FF, so the string
  operations below are those of the runtime on text of that range (ASCII and Latin-1).
  A number of the program is either an integer or the value NaN; the numbers the handlers
  compute come from \<open>parseInt\<close> and from array lengths and are integral. The infinities
  are not part of the model (a numeral too long for a double, or a division by zero, would
  produce one).
\<close>

datatype jsnum = NaN | Num int

definition inRange :: "char \<Rightarrow> char \<Rightarrow> char \<Rightarrow> bool" where
  "inRange lo hi c \<longleftrightarrow> (of_char lo :: nat) \<le> of_char c \<and> (of_char c :: nat) \<le> of_char hi"

text \<open>The classes \<open>[A-Za-z]\<close> and \<open>\d\<close> of the regular expressions.\<close>

definition isLetter :: "char \<Rightarrow> bool" where
  "isLetter c \<longleftrightarrow> inRange CHR ''A'' CHR ''Z'' c \<or> inRange CHR ''a'' CHR ''z'' c"

definition isDigit :: "char \<Rightarrow> bool" where
  "isDigit c \<longleftrightarrow> inRange CHR ''0'' CHR ''9'' c"

text \<open>
  White space and line terminators, as \<open>\s\<close>, \<open>trim\<close> and \<open>parseInt\<close> see them:
  TAB, LF, VT, FF, CR, SPACE and NO-BREAK SPACE.
\<close>

definition isWhiteSpace :: "char \<Rightarrow> bool" where
  "isWhiteSpace c \<longleftrightarrow> inRange (CHR 0x09) (CHR 0x0D) c \<or> c = CHR 0x20 \<or> c = CHR 0xA0"

text \<open>
  \<open>toLowerCase\<close>: the upper-case letters of the range are A .. Z and U+00C0 .. U+00DE
  without the multiplication sign U+00D7; the lower-case partner is 32 further, which is
  the same code with bit 5 set.
\<close>

definition isUpper :: "char \<Rightarrow> bool" where
  "isUpper c \<longleftrightarrow> inRange CHR ''A'' CHR ''Z'' c \<or> (inRange (CHR 0xC0) (CHR 0xDE) c \<and> c \<noteq> CHR 0xD7)"

fun setBit5 :: "char \<Rightarrow> char" where
  "setBit5 (Char b0 b1 b2 b3 b4 b5 b6 b7) = Char b0 b1 b2 b3 b4 True b6 b7"

definition toLowerChar :: "char \<Rightarrow> char" where
  "toLowerChar c = (if isUpper c then setBit5 c else c)"

definition toLowerCase :: "string \<Rightarrow> string" where
  "toLowerCase s = map toLowerChar s"

definition trim :: "string \<Rightarrow> string" where
  "trim s = rev (dropWhile isWhiteSpace (rev (dropWhile isWhiteSpace s)))"

text \<open>\<open>hay.includes(needle)\<close>: the needle occurs at some position of the haystack.\<close>

fun includes_str :: "string \<Rightarrow> string \<Rightarrow> bool" where
  "includes_str [] needle = (needle = [])"
| "includes_str (c # cs) needle = (prefix needle (c # cs) \<or> includes_str cs needle)"

text \<open>A string is truthy when it is not empty, a number when it is neither 0 nor NaN.\<close>

definition truthy :: "string option \<Rightarrow> bool" where
  "truthy v = (case v of None \<Rightarrow> False | Some s \<Rightarrow> s \<noteq> [])"

definition truthyNum :: "int option \<Rightarrow> bool" where
  "truthyNum v = (case v of None \<Rightarrow> False | Some n \<Rightarrow> n \<noteq> 0)"

subsection \<open>Numbers\<close>

text \<open>Comparison and arithmetic: every comparison with NaN is false, NaN propagates.\<close>

fun js_lt :: "jsnum \<Rightarrow> jsnum \<Rightarrow> bool" where
  "js_lt (Num a) (Num b) = (a < b)"
| "js_lt _ _ = False"

fun js_gt :: "jsnum \<Rightarrow> jsnum \<Rightarrow> bool" where
  "js_gt (Num a) (Num b) = (a > b)"
| "js_gt _ _ = False"

fun js_add :: "jsnum \<Rightarrow> jsnum \<Rightarrow> jsnum" where
  "js_add (Num a) (Num b) = Num (a + b)"
| "js_add _ _ = NaN"

fun js_sub :: "jsnum \<Rightarrow> jsnum \<Rightarrow> jsnum" where
  "js_sub (Num a) (Num b) = Num (a - b)"
| "js_sub _ _ = NaN"

fun js_mul :: "jsnum \<Rightarrow> jsnum \<Rightarrow> jsnum" where
  "js_mul (Num a) (Num b) = Num (a * b)"
| "js_mul _ _ = NaN"

text \<open>
  \<open>Math.ceil(a / b)\<close>: the quotient is taken exactly, then rounded up. With \<open>b = 0\<close> the
  runtime yields an infinity (or NaN for \<open>0 / 0\<close>); the handlers reject a limit below 1
  before they divide, and the model answers NaN there.
\<close>

fun math_ceil_div :: "jsnum \<Rightarrow> jsnum \<Rightarrow> jsnum" where
  "math_ceil_div (Num a) (Num b) =
     (if b = 0 then NaN else Num \<lceil>rat_of_int a / rat_of_int b\<rceil>)"
| "math_ceil_div _ _ = NaN"

text \<open>
  \<open>parseInt(s, 10)\<close>: leading white space is skipped, one sign is read, then the longest
  run of decimal digits; no digit gives NaN, anything after the digits is ignored.
\<close>

definition digitValue :: "char \<Rightarrow> nat" where
  "digitValue c = of_char c - 48"

definition decimalValue :: "string \<Rightarrow> nat" where
  "decimalValue ds = foldl (\<lambda>a c. 10 * a + digitValue c) 0 ds"

definition parseInt :: "string \<Rightarrow> jsnum" where
  "parseInt inputString =
     (let S = dropWhile isWhiteSpace inputString;
          sign = (if S \<noteq> [] \<and> hd S = CHR ''-'' then - 1 else 1 :: int);
          S' = (if S \<noteq> [] \<and> (hd S = CHR ''+'' \<or> hd S = CHR ''-'') then tl S else S);
          Z = takeWhile isDigit S'
      in if Z = [] then NaN else Num (sign * int (decimalValue Z)))"

text \<open>
  \<open>xs.slice(start, end)\<close>: both bounds go through ToIntegerOrInfinity (NaN becomes 0),
  a negative bound counts from the end, and both are clamped to the length.
\<close>

fun toInteger :: "jsnum \<Rightarrow> int" where
  "toInteger NaN = 0"
| "toInteger (Num n) = n"

definition clampIndex :: "int \<Rightarrow> int \<Rightarrow> int" where
  "clampIndex len rel = (if rel < 0 then max (len + rel) 0 else min rel len)"

definition slice :: "'a list \<Rightarrow> jsnum \<Rightarrow> jsnum \<Rightarrow> 'a list" where
  "slice xs start finish =
     (let len = int (length xs);
          k = clampIndex len (toInteger start);
          final = clampIndex len (toInteger finish)
      in take (nat (final - k)) (drop (nat k) xs))"

text \<open>\<open>xs.findIndex(p)\<close>, with \<open>None\<close> for the result -1.\<close>

fun findIndex :: "('a \<Rightarrow> bool) \<Rightarrow> 'a list \<Rightarrow> nat option" where
  "findIndex p [] = None"
| "findIndex p (x # xs) =
     (if p x then Some 0 else map_option Suc (findIndex p xs))"

section \<open>Books\<close>

record book =
  id_book :: string
  title :: string
  author :: string
  genre :: string
  publishedYear :: jsnum
  userId :: string

record pagination =
  currentPage :: jsnum
  totalPages :: jsnum
  totalBooks :: nat
  hasNextPage :: bool
  hasPreviousPage :: bool

text \<open>
  The body of a response: what the handler passes to \<open>res.json\<close> under \<open>data\<close>. A user
  object is the list of its properties, in order.
\<close>

type_synonym jsobject = "(string \<times> string) list"

datatype payload =
    BooksPayload "book list" pagination
  | BookPayload book
  | UserPayload jsobject
  | UsersPayload "jsobject list" nat
  | AuthPayload jsobject string

record response =
  status :: nat
  success :: bool
  message :: string
  data :: "payload option"

definition respond :: "nat \<Rightarrow> bool \<Rightarrow> string \<Rightarrow> payload option \<Rightarrow> response" where
  "respond st ok msg d = \<lparr>status = st, success = ok, message = msg, data = d\<rparr>"

text \<open>
  A document file as the typed reader \<open>readJSONFile<T>\<close> sees it: missing, present with
  content that does not decode, or holding a collection. Reading a missing file raises
  ENOENT, decoding failure raises a SyntaxError. Writing replaces the whole content.
  \<open>initializeBooksFile\<close> tries to read and writes the empty collection when that fails.
\<close>

datatype 'a document_file = Missing | Corrupt | Doc 'a

datatype io_error = ENOENT | SyntaxError

definition readTyped :: "'a document_file \<Rightarrow> io_error + 'a" where
  "readTyped f = (case f of Missing \<Rightarrow> Inl ENOENT | Corrupt \<Rightarrow> Inl SyntaxError | Doc d \<Rightarrow> Inr d)"

definition writeTyped :: "'a \<Rightarrow> 'a document_file" where
  "writeTyped content = Doc content"

type_synonym books_file = "book list document_file"

definition initializeBooksFile :: "books_file \<Rightarrow> books_file" where
  "initializeBooksFile f = (case readTyped f of Inl e \<Rightarrow> writeTyped [] | Inr bs \<Rightarrow> f)"

definition internalError :: response where
  "internalError = respond 500 False ''Internal server error. Please try again later.'' None"

subsection \<open>Listing with filters and pages\<close>

text \<open>
  The query of a listing request: each parameter is absent or a string (an empty one for
  \<open>?genre=\<close>). \<open>applyFilters\<close> is the three filter statements of \<open>getAllBooks\<close>, each
  under its test \<open>if (genre)\<close>, \<open>if (author)\<close>, \<open>if (title)\<close>. Both listings end with the
  same lines, which compute the window, the number of pages and the two flags;
  \<open>paginate\<close> is those lines.
\<close>

record books_query =
  q_page :: "string option"
  q_limit :: "string option"
  q_genre :: "string option"
  q_author :: "string option"
  q_title :: "string option"

definition orDefault :: "string option \<Rightarrow> string \<Rightarrow> string" where
  "orDefault v d = (case v of None \<Rightarrow> d | Some s \<Rightarrow> s)"

definition genreMatches :: "string \<Rightarrow> book \<Rightarrow> bool" where
  "genreMatches g b \<longleftrightarrow> toLowerCase (genre b) = toLowerCase g"

definition authorMatches :: "string \<Rightarrow> book \<Rightarrow> bool" where
  "authorMatches a b \<longleftrightarrow> includes_str (toLowerCase (author b)) (toLowerCase a)"

definition titleMatches :: "string \<Rightarrow> book \<Rightarrow> bool" where
  "titleMatches t b \<longleftrightarrow> includes_str (toLowerCase (title b)) (toLowerCase t)"

definition applyFilters :: "books_query \<Rightarrow> book list \<Rightarrow> book list" where
  "applyFilters q books =
     (let filteredBooks = books;
          filteredBooks = (if truthy (q_genre q)
                           then filter (genreMatches (the (q_genre q))) filteredBooks
                           else filteredBooks);
          filteredBooks = (if truthy (q_author q)
                           then filter (authorMatches (the (q_author q))) filteredBooks
                           else filteredBooks);
          filteredBooks = (if truthy (q_title q)
                           then filter (titleMatches (the (q_title q))) filteredBooks
                           else filteredBooks)
      in filteredBooks)"

definition paginate :: "jsnum \<Rightarrow> jsnum \<Rightarrow> book list \<Rightarrow> payload" where
  "paginate pageNumber limitNumber filteredBooks =
     (let startIndex = js_mul (js_sub pageNumber (Num 1)) limitNumber;
          endIndex = js_add startIndex limitNumber;
          paginatedBooks = slice filteredBooks startIndex endIndex;
          total = length filteredBooks;
          pages = math_ceil_div (Num (int total)) limitNumber
      in BooksPayload paginatedBooks
           \<lparr>currentPage = pageNumber, totalPages = pages, totalBooks = total,
            hasNextPage = js_lt pageNumber pages,
            hasPreviousPage = js_gt pageNumber (Num 1)\<rparr>)"

definition badPage :: response where
  "badPage = respond 400 False ''Page and limit must be positive numbers'' None"

definition getAllBooks :: "books_query \<Rightarrow> books_file \<Rightarrow> response \<times> books_file" where
  "getAllBooks q file0 =
     (let file = initializeBooksFile file0;
          pageNumber = parseInt (orDefault (q_page q) ''1'');
          limitNumber = parseInt (orDefault (q_limit q) ''10'')
      in if js_lt pageNumber (Num 1) \<or> js_lt limitNumber (Num 1) then (badPage, file)
         else case readTyped file of
                Inl e \<Rightarrow> (internalError, file)
              | Inr books \<Rightarrow>
                  (respond 200 True ''Books retrieved successfully''
                     (Some (paginate pageNumber limitNumber (applyFilters q books))), file))"

definition searchBooksByGenre ::
  "string \<Rightarrow> string option \<Rightarrow> string option \<Rightarrow> books_file \<Rightarrow> response \<times> books_file" where
  "searchBooksByGenre g page limit file0 =
     (let file = initializeBooksFile file0;
          pageNumber = parseInt (orDefault page ''1'');
          limitNumber = parseInt (orDefault limit ''10'')
      in if js_lt pageNumber (Num 1) \<or> js_lt limitNumber (Num 1) then (badPage, file)
         else case readTyped file of
                Inl e \<Rightarrow> (internalError, file)
              | Inr books \<Rightarrow>
                  (respond 200 True (''Books in genre '' @ [CHR 0x27] @ g @ [CHR 0x27] @ '' retrieved successfully'')
                     (Some (paginate pageNumber limitNumber (filter (genreMatches g) books))), file))"

subsection \<open>Updating and deleting a book\<close>

text \<open>
  Number to string, for integers: the decimal numeral, with a minus sign below zero.
  \<open>parseInt(n)\<close> on a number converts it to its string first.
\<close>

definition digitChar :: "nat \<Rightarrow> char" where
  "digitChar d = ''0123456789'' ! d"

fun natToString :: "nat \<Rightarrow> string" where
  "natToString n = (if n < 10 then [digitChar n] else natToString (n div 10) @ [digitChar (n mod 10)])"

declare natToString.simps [simp del]

definition numberToString :: "int \<Rightarrow> string" where
  "numberToString n = (if n < 0 then CHR ''-'' # natToString (nat (- n)) else natToString (nat n))"

text \<open>
  The body of an update request, as \<open>express.json()\<close> delivers it: each field absent or
  present, the text fields strings and the year an integer, as the API schema declares them.
\<close>

record book_patch =
  p_title :: "string option"
  p_author :: "string option"
  p_genre :: "string option"
  p_publishedYear :: "int option"

definition mergePatch :: "book \<Rightarrow> book_patch \<Rightarrow> book" where
  "mergePatch old body =
     (let b = old;
          b = (if truthy (p_title body) then b\<lparr>title := trim (the (p_title body))\<rparr> else b);
          b = (if truthy (p_author body) then b\<lparr>author := trim (the (p_author body))\<rparr> else b);
          b = (if truthy (p_genre body) then b\<lparr>genre := trim (the (p_genre body))\<rparr> else b);
          b = (if truthyNum (p_publishedYear body)
               then b\<lparr>publishedYear := parseInt (numberToString (the (p_publishedYear body)))\<rparr>
               else b)
      in b)"

definition badLength :: "string option \<Rightarrow> nat \<Rightarrow> bool" where
  "badLength v hi \<longleftrightarrow> truthy v \<and> (length (trim (the v)) < 1 \<or> length (trim (the v)) > hi)"

text \<open>
  \<open>updateBook\<close>: \<open>currentYear\<close> is the year of the clock, \<open>bookId\<close> the route parameter and
  \<open>caller\<close> the user id of the verified token (\<open>req.user?.userId\<close>).
\<close>

definition updateBook ::
  "int \<Rightarrow> string \<Rightarrow> string option \<Rightarrow> book_patch \<Rightarrow> books_file \<Rightarrow> response \<times> books_file" where
  "updateBook currentYear bookId caller body file0 =
     (let file = initializeBooksFile file0 in
      if bookId = [] then (respond 400 False ''Book ID is required'' None, file)
      else if \<not> truthy caller then (respond 401 False ''User authentication required'' None, file)
      else case readTyped file of
        Inl e \<Rightarrow> (internalError, file)
      | Inr books \<Rightarrow>
         (case findIndex (\<lambda>b. id_book b = bookId) books of
            None \<Rightarrow> (respond 404 False ''Book not found'' None, file)
          | Some bookIndex \<Rightarrow>
              if userId (books ! bookIndex) \<noteq> the caller
              then (respond 403 False ''You can only update your own books'' None, file)
              else if truthyNum (p_publishedYear body) \<and>
                      (the (p_publishedYear body) < 1000 \<or> the (p_publishedYear body) > currentYear)
              then (respond 400 False
                      (''Published year must be between 1000 and '' @ numberToString currentYear) None, file)
              else if badLength (p_title body) 200
              then (respond 400 False ''Title must be between 1 and 200 characters'' None, file)
              else if badLength (p_author body) 100
              then (respond 400 False ''Author must be between 1 and 100 characters'' None, file)
              else if badLength (p_genre body) 50
              then (respond 400 False ''Genre must be between 1 and 50 characters'' None, file)
              else
                let updatedBook = mergePatch (books ! bookIndex) body
                in (respond 200 True ''Book updated successfully'' (Some (BookPayload updatedBook)),
                    writeTyped (books[bookIndex := updatedBook]))))"

text \<open>\<open>xs.splice(i, 1)\<close> removes the element at position \<open>i\<close>.\<close>

definition splice1 :: "nat \<Rightarrow> 'a list \<Rightarrow> 'a list" where
  "splice1 i xs = take i xs @ drop (Suc i) xs"

definition deleteBook ::
  "string \<Rightarrow> string option \<Rightarrow> books_file \<Rightarrow> response \<times> books_file" where
  "deleteBook bookId caller file0 =
     (let file = initializeBooksFile file0 in
      if bookId = [] then (respond 400 False ''Book ID is required'' None, file)
      else if \<not> truthy caller then (respond 401 False ''User authentication required'' None, file)
      else case readTyped file of
        Inl e \<Rightarrow> (internalError, file)
      | Inr books \<Rightarrow>
         (case findIndex (\<lambda>b. id_book b = bookId) books of
            None \<Rightarrow> (respond 404 False ''Book not found'' None, file)
          | Some bookIndex \<Rightarrow>
              if userId (books ! bookIndex) \<noteq> the caller
              then (respond 403 False ''You can only delete your own books'' None, file)
              else (respond 200 True ''Book deleted successfully'' None,
                    writeTyped (splice1 bookIndex books))))"

section \<open>Validation\<close>

text \<open>
  The validators are regular expressions anchored at both ends. A pattern is matched from
  the start of the input; \<open>matchRe r s\<close> lists what can remain of \<open>s\<close> after a match of
  \<open>r\<close>, over every choice the backtracking matcher can make, and \<open>test\<close> succeeds when
  some choice matches.
\<close>

datatype regex =
    Class "char \<Rightarrow> bool"
  | AtLeast nat "char \<Rightarrow> bool"
  | Seq regex regex
  | Lookahead regex
  | EndOfInput

fun repeatClass :: "nat \<Rightarrow> (char \<Rightarrow> bool) \<Rightarrow> string \<Rightarrow> string list" where
  "repeatClass n P [] = (if n = 0 then [[]] else [])"
| "repeatClass n P (c # cs) =
     (if P c then repeatClass (n - 1) P cs else []) @ (if n = 0 then [c # cs] else [])"

fun matchRe :: "regex \<Rightarrow> string \<Rightarrow> string list" where
  "matchRe (Class P) s = (case s of [] \<Rightarrow> [] | c # cs \<Rightarrow> if P c then [cs] else [])"
| "matchRe (AtLeast n P) s = repeatClass n P s"
| "matchRe (Seq r1 r2) s = concat (map (matchRe r2) (matchRe r1 s))"
| "matchRe (Lookahead r) s = (if matchRe r s = [] then [] else [s])"
| "matchRe EndOfInput s = (if s = [] then [s] else [])"

definition test :: "regex \<Rightarrow> string \<Rightarrow> bool" where
  "test r s \<longleftrightarrow> matchRe r s \<noteq> []"

text \<open>The dot matches every character but a line terminator.\<close>

definition dot :: "char \<Rightarrow> bool" where
  "dot c \<longleftrightarrow> c \<noteq> CHR 0x0A \<and> c \<noteq> CHR 0x0D"

definition lit :: "char \<Rightarrow> char \<Rightarrow> bool" where
  "lit a c \<longleftrightarrow> c = a"

text \<open>\<open>/^[^\s@]+@[^\s@]+\.[^\s@]+$/\<close>\<close>

definition notSpaceAt :: "char \<Rightarrow> bool" where
  "notSpaceAt c \<longleftrightarrow> \<not> isWhiteSpace c \<and> c \<noteq> CHR ''@''"

definition emailRegex :: regex where
  "emailRegex =
     Seq (AtLeast 1 notSpaceAt) (Seq (Class (lit CHR ''@''))
       (Seq (AtLeast 1 notSpaceAt) (Seq (Class (lit CHR ''.''))
         (Seq (AtLeast 1 notSpaceAt) EndOfInput))))"

definition isValidEmail :: "string \<Rightarrow> bool" where
  "isValidEmail email = test emailRegex email"

text \<open>\<open>/^(?=.*[A-Za-z])(?=.*\d)[A-Za-z\d@$!%*#?&]{6,}$/\<close>\<close>

definition passwordChar :: "char \<Rightarrow> bool" where
  "passwordChar c \<longleftrightarrow> isLetter c \<or> isDigit c \<or> c \<in> set ''@$!%*#?&''"

definition passwordRegex :: regex where
  "passwordRegex =
     Seq (Lookahead (Seq (AtLeast 0 dot) (Class isLetter)))
       (Seq (Lookahead (Seq (AtLeast 0 dot) (Class isDigit)))
         (Seq (AtLeast 6 passwordChar) EndOfInput))"

definition isValidPassword :: "string \<Rightarrow> bool" where
  "isValidPassword password = test passwordRegex password"

section \<open>Users\<close>

record user =
  id_user :: string
  username :: string
  email :: string
  password :: string
  createdAt :: string
  updatedAt :: string

type_synonym users_file = "user list document_file"

definition initializeUsersFile :: "users_file \<Rightarrow> users_file" where
  "initializeUsersFile f = (case readTyped f of Inl e \<Rightarrow> writeTyped [] | Inr us \<Rightarrow> f)"

text \<open>
  What the handlers take from outside the program: the identifier generator, the password
  hash and its check, the token signer, and the clock (\<open>isoNow k\<close> is its \<open>k\<close>-th reading
  during the request, as an ISO string).
\<close>

record runtime =
  uuidv4 :: string
  bcrypt_hash :: "string \<Rightarrow> string"
  bcrypt_compare :: "string \<Rightarrow> string \<Rightarrow> bool"
  jwt_sign :: "string \<Rightarrow> string \<Rightarrow> string"
  isoNow :: "nat \<Rightarrow> string"

text \<open>
  A user as an object: its properties in the order the object literal of \<open>registerUser\<close>
  creates them. The rest pattern \<open>{ password, ...userWithoutPassword }\<close> copies every
  property but the one named.
\<close>

definition userObject :: "user \<Rightarrow> jsobject" where
  "userObject u =
     [(''id'', id_user u), (''username'', username u), (''email'', email u),
      (''password'', password u), (''createdAt'', createdAt u), (''updatedAt'', updatedAt u)]"

definition omit :: "string \<Rightarrow> jsobject \<Rightarrow> jsobject" where
  "omit key obj = filter (\<lambda>(k, v). k \<noteq> key) obj"

definition userWithoutPassword :: "user \<Rightarrow> jsobject" where
  "userWithoutPassword u = omit ''password'' (userObject u)"

record register_body =
  r_username :: "string option"
  r_email :: "string option"
  r_password :: "string option"

definition sameEmail :: "string \<Rightarrow> user \<Rightarrow> bool" where
  "sameEmail e u \<longleftrightarrow> toLowerCase (email u) = toLowerCase e"

definition sameUsername :: "string \<Rightarrow> user \<Rightarrow> bool" where
  "sameUsername n u \<longleftrightarrow> toLowerCase (username u) = toLowerCase n"

definition registerUser :: "runtime \<Rightarrow> register_body \<Rightarrow> users_file \<Rightarrow> response \<times> users_file" where
  "registerUser rt body file0 =
     (let file = initializeUsersFile file0 in
      if \<not> truthy (r_username body) \<or> \<not> truthy (r_email body) \<or> \<not> truthy (r_password body)
      then (respond 400 False ''Username, email, and password are required'' None, file)
      else if \<not> isValidEmail (the (r_email body))
      then (respond 400 False ''Please provide a valid email address'' None, file)
      else if \<not> isValidPassword (the (r_password body))
      then (respond 400 False
              ''Password must be at least 6 characters long and contain at least one letter and one number''
              None, file)
      else if length (the (r_username body)) < 3 \<or> length (the (r_username body)) > 20
      then (respond 400 False ''Username must be between 3 and 20 characters'' None, file)
      else case readTyped file of
        Inl SyntaxError \<Rightarrow>
          (respond 500 False ''Database corruption detected. Please contact support.'' None, file)
      | Inl ENOENT \<Rightarrow>
          (respond 500 False ''Database file not found. Please contact support.'' None, file)
      | Inr users \<Rightarrow>
         (case find (\<lambda>u. sameEmail (the (r_email body)) u \<or> sameUsername (the (r_username body)) u) users of
            Some existingUser \<Rightarrow>
              (respond 409 False ''User with this email or username already exists'' None, file)
          | None \<Rightarrow>
              let newUser = \<lparr>id_user = uuidv4 rt,
                             username = trim (the (r_username body)),
                             email = trim (toLowerCase (the (r_email body))),
                             password = bcrypt_hash rt (the (r_password body)),
                             createdAt = isoNow rt 0,
                             updatedAt = isoNow rt 1\<rparr>
              in (respond 201 True ''User registered successfully''
                    (Some (UserPayload (userWithoutPassword newUser))),
                  writeTyped (users @ [newUser]))))"

record login_body =
  l_email :: "string option"
  l_password :: "string option"

definition loginUser :: "runtime \<Rightarrow> login_body \<Rightarrow> users_file \<Rightarrow> response \<times> users_file" where
  "loginUser rt body file0 =
     (let file = initializeUsersFile file0 in
      if \<not> truthy (l_email body) \<or> \<not> truthy (l_password body)
      then (respond 400 False ''Email and password are required'' None, file)
      else case readTyped file of
        Inl e \<Rightarrow> (internalError, file)
      | Inr users \<Rightarrow>
         (case find (sameEmail (the (l_email body))) users of
            None \<Rightarrow> (respond 401 False ''Invalid email or password'' None, file)
          | Some u \<Rightarrow>
              if \<not> bcrypt_compare rt (the (l_password body)) (password u)
              then (respond 401 False ''Invalid email or password'' None, file)
              else
                let token = jwt_sign rt (id_user u) (email u)
                in (respond 200 True ''Login successful''
                      (Some (AuthPayload (userWithoutPassword u) token)), file)))"

definition getAllUsers :: "users_file \<Rightarrow> response \<times> users_file" where
  "getAllUsers file0 =
     (let file = initializeUsersFile file0 in
      case readTyped file of
        Inl e \<Rightarrow> (internalError, file)
      | Inr users \<Rightarrow>
          let usersWithoutPasswords = map userWithoutPassword users
          in (respond 200 True ''Users retrieved successfully''
                (Some (UsersPayload usersWithoutPasswords (length usersWithoutPasswords))), file))"

definition getUserById :: "string \<Rightarrow> users_file \<Rightarrow> response \<times> users_file" where
  "getUserById userIdParam file0 =
     (let file = initializeUsersFile file0 in
      if userIdParam = [] then (respond 400 False ''User ID is required'' None, file)
      else case readTyped file of
        Inl e \<Rightarrow> (internalError, file)
      | Inr users \<Rightarrow>
         (case find (\<lambda>u. id_user u = userIdParam) users of
            None \<Rightarrow> (respond 404 False ''User not found'' None, file)
          | Some u \<Rightarrow>
              (respond 200 True ''User retrieved successfully''
                 (Some (UserPayload (userWithoutPassword u))), file)))"

record user_patch =
  u_username :: "string option"
  u_email :: "string option"

definition mergeUserPatch :: "user \<Rightarrow> user_patch \<Rightarrow> string \<Rightarrow> user" where
  "mergeUserPatch old body now =
     (let u = old;
          u = (if truthy (u_username body) then u\<lparr>username := trim (the (u_username body))\<rparr> else u);
          u = (if truthy (u_email body)
               then u\<lparr>email := trim (toLowerCase (the (u_email body)))\<rparr> else u)
      in u\<lparr>updatedAt := now\<rparr>)"

definition isDuplicateOf :: "user_patch \<Rightarrow> nat \<Rightarrow> user \<times> nat \<Rightarrow> bool" where
  "isDuplicateOf body userIndex ui =
     (case ui of (u, index) \<Rightarrow>
        index \<noteq> userIndex \<and>
        ((truthy (u_username body) \<and> sameUsername (the (u_username body)) u) \<or>
         (truthy (u_email body) \<and> sameEmail (the (u_email body)) u)))"

definition updateUser ::
  "runtime \<Rightarrow> string \<Rightarrow> user_patch \<Rightarrow> users_file \<Rightarrow> response \<times> users_file" where
  "updateUser rt userIdParam body file0 =
     (let file = initializeUsersFile file0 in
      if userIdParam = [] then (respond 400 False ''User ID is required'' None, file)
      else case readTyped file of
        Inl e \<Rightarrow> (internalError, file)
      | Inr users \<Rightarrow>
         (case findIndex (\<lambda>u. id_user u = userIdParam) users of
            None \<Rightarrow> (respond 404 False ''User not found'' None, file)
          | Some userIndex \<Rightarrow>
              if truthy (u_email body) \<and> \<not> isValidEmail (the (u_email body))
              then (respond 400 False ''Please provide a valid email address'' None, file)
              else if (truthy (u_username body) \<or> truthy (u_email body)) \<and>
                      find (isDuplicateOf body userIndex) (zip users [0 ..< length users]) \<noteq> None
              then (respond 409 False ''Username or email already exists'' None, file)
              else
                let updatedUser = mergeUserPatch (users ! userIndex) body (isoNow rt 0)
                in (respond 200 True ''User updated successfully''
                      (Some (UserPayload (userWithoutPassword updatedUser))),
                    writeTyped (users[userIndex := updatedUser]))))"

section \<open>The storage gateway\<close>

text \<open>
  The handlers above work on the typed view of a document file. This section models the
  gateway itself, on the text of the file.
  \<open>writeJSONFile\<close> stores \<open>JSON.stringify(content, null, 2)\<close> as the whole content of the
  file, \<open>readJSONFile\<close> returns \<open>JSON.parse\<close> of the whole content. Values are modelled as
  far as documents need them: null, booleans, numbers (integral or NaN), strings, arrays
  and objects as property lists in creation order. The UTF-8 encoding of the text, which
  \<open>writeFile\<close> applies and \<open>readFile\<close> reverts, is not modelled: the file holds the text.
\<close>

datatype jsvalue =
    JNull
  | JBool bool
  | JNumber jsnum
  | JString string
  | JArray "jsvalue list"
  | JObject "(string \<times> jsvalue) list"

subsection \<open>Serialising\<close>

text \<open>
  A string is quoted; the quote, the backslash and the control characters are escaped,
  the five usual ones by their letter and the others as \<open>\u00XX\<close>.
\<close>

definition hexDigitChar :: "nat \<Rightarrow> char" where
  "hexDigitChar d = ''0123456789abcdef'' ! d"

definition escapeChar :: "char \<Rightarrow> string" where
  "escapeChar c =
     (if c = CHR 0x08 then [CHR 0x5C, CHR ''b'']
      else if c = CHR 0x09 then [CHR 0x5C, CHR ''t'']
      else if c = CHR 0x0A then [CHR 0x5C, CHR ''n'']
      else if c = CHR 0x0C then [CHR 0x5C, CHR ''f'']
      else if c = CHR 0x0D then [CHR 0x5C, CHR ''r'']
      else if c = CHR 0x22 then [CHR 0x5C, CHR 0x22]
      else if c = CHR 0x5C then [CHR 0x5C, CHR 0x5C]
      else if (of_char c :: nat) < 32
      then [CHR 0x5C, CHR ''u'', CHR ''0'', CHR ''0'',
            hexDigitChar (of_char c div 16), hexDigitChar (of_char c mod 16)]
      else [c])"

definition quoteJSONString :: "string \<Rightarrow> string" where
  "quoteJSONString s = CHR 0x22 # concat (map escapeChar s) @ [CHR 0x22]"




subsection \<open>Parsing\<close>



definition hexValue :: "char \<Rightarrow> nat option" where
  "hexValue c =
     (if isDigit c then Some (of_char c - 48)
      else if inRange CHR ''a'' CHR ''f'' c then Some (of_char c - 87)
      else if inRange CHR ''A'' CHR ''F'' c then Some (of_char c - 55)
      else None)"

definition unescape :: "char \<Rightarrow> char option" where
  "unescape e =
     (if e = CHR 0x22 then Some (CHR 0x22)
      else if e = CHR 0x5C then Some (CHR 0x5C)
      else if e = CHR ''/'' then Some CHR ''/''
      else if e = CHR ''b'' then Some (CHR 0x08)
      else if e = CHR ''f'' then Some (CHR 0x0C)
      else if e = CHR ''n'' then Some (CHR 0x0A)
      else if e = CHR ''r'' then Some (CHR 0x0D)
      else if e = CHR ''t'' then Some (CHR 0x09)
      else None)"

text \<open>The four hexadecimal digits of a \<open>\u\<close> escape, as a character of the model.\<close>

definition unicodeEscape :: "char \<Rightarrow> char \<Rightarrow> char \<Rightarrow> char \<Rightarrow> char option" where
  "unicodeEscape h1 h2 h3 h4 =
     (case (hexValue h1, hexValue h2, hexValue h3, hexValue h4) of
        (Some a, Some b, Some c, Some d) \<Rightarrow>
          if a = 0 \<and> b = 0 then Some (char_of (16 * c + d)) else None
      | _ \<Rightarrow> None)"

text \<open>The characters of a string, after its opening quote, up to the closing quote.\<close>

fun parseStringChars :: "string \<Rightarrow> (string \<times> string) option" where
  "parseStringChars [] = None"
| "parseStringChars (c # cs) =
     (if c = CHR 0x22 then Some ([], cs)
      else if c = CHR 0x5C then
        (case cs of
           [] \<Rightarrow> None
         | e # r \<Rightarrow>
             if e = CHR ''u'' then
               (case r of
                  h1 # h2 # h3 # h4 # r' \<Rightarrow>
                    (case unicodeEscape h1 h2 h3 h4 of
                       None \<Rightarrow> None
                     | Some d \<Rightarrow> map_option (\<lambda>(s, t). (d # s, t)) (parseStringChars r'))
                | _ \<Rightarrow> None)
             else
               (case unescape e of
                  None \<Rightarrow> None
                | Some d \<Rightarrow> map_option (\<lambda>(s, t). (d # s, t)) (parseStringChars r)))
      else if (of_char c :: nat) < 32 then None
      else map_option (\<lambda>(s, t). (c # s, t)) (parseStringChars cs))"






subsection \<open>Files\<close>






section \<open>Vocabulary of the properties\<close>

text \<open>The collection a handler works on: the one in the file, or the empty one it creates.\<close>

definition storedBooks :: "books_file \<Rightarrow> book list" where
  "storedBooks f = (case f of Doc bs \<Rightarrow> bs | _ \<Rightarrow> [])"


text \<open>Sample data for the concrete instances.\<close>

definition dune :: book where
  "dune = \<lparr>id_book = ''b1'', title = ''Dune'', author = ''Frank Herbert'', genre = ''Fiction'',
           publishedYear = Num 1965, userId = ''u1''\<rparr>"

definition emma :: book where
  "emma = \<lparr>id_book = ''b2'', title = ''Emma'', author = ''Jane Austen'', genre = ''fiction'',
           publishedYear = Num 1815, userId = ''u2''\<rparr>"

definition hamlet :: book where
  "hamlet = \<lparr>id_book = ''b3'', title = ''Hamlet'', author = ''William Shakespeare'', genre = ''Drama'',
             publishedYear = Num 1603, userId = ''u1''\<rparr>"

definition noFilters :: "string option \<Rightarrow> string option \<Rightarrow> books_query" where
  "noFilters page limit =
     \<lparr>q_page = page, q_limit = limit, q_genre = None, q_author = None, q_title = None\<rparr>"




text \<open>Two strings that differ at most in the case of their ASCII letters.\<close>

definition asciiLowerChar :: "char \<Rightarrow> char" where
  "asciiLowerChar c = (if inRange CHR ''A'' CHR ''Z'' c then setBit5 c else c)"

definition equalUpToAsciiCase :: "string \<Rightarrow> string \<Rightarrow> bool" where
  "equalUpToAsciiCase a b \<longleftrightarrow> map asciiLowerChar a = map asciiLowerChar b"

text \<open>A registration body that passes the field checks of \<open>registerUser\<close>.\<close>

definition validRegistration :: "register_body \<Rightarrow> bool" where
  "validRegistration body \<longleftrightarrow>
     truthy (r_username body) \<and> truthy (r_email body) \<and> truthy (r_password body) \<and>
     isValidEmail (the (r_email body)) \<and> isValidPassword (the (r_password body)) \<and>
     3 \<le> length (the (r_username body)) \<and> length (the (r_username body)) \<le> 20"

text \<open>The merge as claim C8 words it: every field present in the patch replaces the old one.\<close>

definition replaceSupplied :: "book \<Rightarrow> book_patch \<Rightarrow> book" where
  "replaceSupplied old body =
     old\<lparr>title := (case p_title body of None \<Rightarrow> title old | Some t \<Rightarrow> t),
         author := (case p_author body of None \<Rightarrow> author old | Some a \<Rightarrow> a),
         genre := (case p_genre body of None \<Rightarrow> genre old | Some g \<Rightarrow> g),
         publishedYear := (case p_publishedYear body of None \<Rightarrow> publishedYear old | Some y \<Rightarrow> Num y)\<rparr>"

text \<open>The user objects a response carries.\<close>

definition responseUsers :: "response \<Rightarrow> jsobject list" where
  "responseUsers r =
     (case data r of
        Some (UserPayload obj) \<Rightarrow> [obj]
      | Some (UsersPayload objs n) \<Rightarrow> objs
      | Some (AuthPayload obj token) \<Rightarrow> [obj]
      | _ \<Rightarrow> [])"

definition storedUsers :: "users_file \<Rightarrow> user list" where
  "storedUsers f = (case f of Doc us \<Rightarrow> us | _ \<Rightarrow> [])"

text \<open>A sample runtime and sample users.\<close>

definition sampleRuntime :: runtime where
  "sampleRuntime =
     \<lparr>uuidv4 = ''id-1'',
      bcrypt_hash = (\<lambda>p. ''hash:'' @ p),
      bcrypt_compare = (\<lambda>p h. h = ''hash:'' @ p),
      jwt_sign = (\<lambda>i e. ''token:'' @ i),
      isoNow = (\<lambda>k. ''2024-05-01T10:00:00.000Z'')\<rparr>"

definition alice :: user where
  "alice = \<lparr>id_user = ''id-1'', username = ''alice'', email = ''a@x.com'', password = ''hash:abc123'',
            createdAt = ''2024-05-01T10:00:00.000Z'', updatedAt = ''2024-05-01T10:00:00.000Z''\<rparr>"

definition aliceBody :: register_body where
  "aliceBody = \<lparr>r_username = Some ''alice'', r_email = Some ''a@x.com'', r_password = Some ''abc123''\<rparr>"

definition aliceAgain :: register_body where
  "aliceAgain = \<lparr>r_username = Some ''alicia'', r_email = Some ''A@X.com'', r_password = Some ''abc123''\<rparr>"

definition aliceNoDigit :: register_body where
  "aliceNoDigit = \<lparr>r_username = Some ''alicia'', r_email = Some ''A@X.com'', r_password = Some ''abcdef''\<rparr>"

definition emptyTitle :: book_patch where
  "emptyTitle = \<lparr>p_title = Some [], p_author = Some '' Herbert '', p_genre = None, p_publishedYear = None\<rparr>"

text \<open>
  The merge as the handlers perform it, field by field: a text field of the patch counts
  when it is present and not empty and is stored trimmed (an email also lower-cased), a
  year counts when it is present and not 0; every other field keeps its old value, and a
  user gets the new time stamp.
\<close>

definition mergedBook :: "book \<Rightarrow> book_patch \<Rightarrow> book" where
  "mergedBook old body =
     \<lparr>id_book = id_book old,
      title = (if truthy (p_title body) then trim (the (p_title body)) else title old),
      author = (if truthy (p_author body) then trim (the (p_author body)) else author old),
      genre = (if truthy (p_genre body) then trim (the (p_genre body)) else genre old),
      publishedYear = (if truthyNum (p_publishedYear body) then Num (the (p_publishedYear body))
                       else publishedYear old),
      userId = userId old\<rparr>"

definition mergedUser :: "user \<Rightarrow> user_patch \<Rightarrow> string \<Rightarrow> user" where
  "mergedUser old body now =
     \<lparr>id_user = id_user old,
      username = (if truthy (u_username body) then trim (the (u_username body)) else username old),
      email = (if truthy (u_email body) then trim (toLowerCase (the (u_email body))) else email old),
      password = password old,
      createdAt = createdAt old,
      updatedAt = now\<rparr>"

definition renameAlice :: user_patch where
  "renameAlice = \<lparr>u_username = Some '' Alice B '', u_email = Some []\<rparr>"

definition aliceLogin :: login_body where
  "aliceLogin = \<lparr>l_email = Some ''A@x.com'', l_password = Some ''abc123''\<rparr>"

text \<open>
  Vocabulary for the round trip: a value without NaN whose objects have no name twice;
  text that is white space only; the text that may follow a value in serialised output;
  and a bound on the nesting of parser calls a value needs.
\<close>

fun plain :: "jsvalue \<Rightarrow> bool"
and plainElements :: "jsvalue list \<Rightarrow> bool"
and plainMembers :: "(string \<times> jsvalue) list \<Rightarrow> bool" where
  "plain (JNumber x) = (x \<noteq> NaN)"
| "plain (JArray vs) = plainElements vs"
| "plain (JObject ms) = (distinct (map fst ms) \<and> plainMembers ms)"
| "plain JNull = True"
| "plain (JBool b) = True"
| "plain (JString s) = True"
| "plainElements [] = True"
| "plainElements (v # vs) = (plain v \<and> plainElements vs)"
| "plainMembers [] = True"
| "plainMembers ((k, v) # ms) = (plain v \<and> plainMembers ms)"








section \<open>Properties\<close>

subsection \<open>Auxiliary facts\<close>

lemma readTyped_initializeBooks:
  "readTyped (initializeBooksFile f) = Inr (storedBooks f)"
  by (cases f) (simp_all add: readTyped_def initializeBooksFile_def storedBooks_def writeTyped_def)

lemma initializeBooks_Doc: "initializeBooksFile (Doc bs) = Doc bs"
  by (simp add: initializeBooksFile_def readTyped_def)

lemma findIndex_find:
  "findIndex p xs = Some i \<Longrightarrow> i < length xs \<and> find p xs = Some (xs ! i)"
  by (induction xs arbitrary: i) (auto split: if_splits)

lemma find_findIndex:
  "find p xs = Some x \<Longrightarrow> \<exists>i. findIndex p xs = Some i \<and> xs ! i = x"
  by (induction xs) (auto split: if_splits)








lemma parseInt_samples:
  "parseInt ''1'' = Num 1" "parseInt ''2'' = Num 2" "parseInt ''3'' = Num 3"
  "parseInt ''10'' = Num 10" "parseInt ''abc'' = NaN"
  by (simp_all add: parseInt_def isWhiteSpace_def isDigit_def inRange_def decimalValue_def digitValue_def)

subsection \<open>The matcher\<close>

lemma repeatClass_iff:
  "r \<in> set (repeatClass n P s) \<longleftrightarrow> (\<exists>pre. s = pre @ r \<and> n \<le> length pre \<and> (\<forall>c\<in>set pre. P c))"
proof (induction s arbitrary: n)
  case Nil
  then show ?case by auto
next
  case (Cons a s)
  show ?case
  proof
    assume "r \<in> set (repeatClass n P (a # s))"
    then consider (step) "P a" "r \<in> set (repeatClass (n - 1) P s)" | (stop) "n = 0" "r = a # s"
      by (auto split: if_splits)
    then show "\<exists>pre. a # s = pre @ r \<and> n \<le> length pre \<and> (\<forall>c\<in>set pre. P c)"
    proof cases
      case step
      then obtain pre where "s = pre @ r" "n - 1 \<le> length pre" "\<forall>c\<in>set pre. P c"
        using Cons.IH by blast
      with step(1) have "a # s = (a # pre) @ r \<and> n \<le> length (a # pre) \<and> (\<forall>c\<in>set (a # pre). P c)"
        by auto
      then show ?thesis by blast
    next
      case stop
      then have "a # s = [] @ r \<and> n \<le> length ([]::string) \<and> (\<forall>c\<in>set []. P c)" by simp
      then show ?thesis by blast
    qed
  next
    assume "\<exists>pre. a # s = pre @ r \<and> n \<le> length pre \<and> (\<forall>c\<in>set pre. P c)"
    then obtain pre where pre: "a # s = pre @ r" "n \<le> length pre" "\<forall>c\<in>set pre. P c" by blast
    show "r \<in> set (repeatClass n P (a # s))"
    proof (cases pre)
      case Nil
      with pre show ?thesis by auto
    next
      case (Cons b pre')
      with pre have "a = b" "s = pre' @ r" "n - 1 \<le> length pre'" "\<forall>c\<in>set pre'. P c" "P a"
        by auto
      then have "r \<in> set (repeatClass (n - 1) P s)" using Cons.IH by blast
      with \<open>P a\<close> show ?thesis by simp
    qed
  qed
qed

lemma repeatClass_whole:
  "[] \<in> set (repeatClass n P s) \<longleftrightarrow> n \<le> length s \<and> (\<forall>c\<in>set s. P c)"
  by (auto simp: repeatClass_iff)

lemma seq_nonempty:
  "matchRe (Seq r1 r2) s \<noteq> [] \<longleftrightarrow> (\<exists>m\<in>set (matchRe r1 s). matchRe r2 m \<noteq> [])"
  by (auto simp: concat_eq_Nil_conv)

lemma class_nonempty:
  "matchRe (Class Q) r \<noteq> [] \<longleftrightarrow> (\<exists>c post. r = c # post \<and> Q c)"
  by (cases r) auto

lemma lookahead_seq:
  "matchRe (Seq (Lookahead a) r) s \<noteq> [] \<longleftrightarrow> matchRe a s \<noteq> [] \<and> matchRe r s \<noteq> []"
  by (auto simp: concat_eq_Nil_conv)

lemma lookahead_contains:
  "matchRe (Seq (AtLeast 0 dot) (Class Q)) s \<noteq> [] \<longleftrightarrow>
     (\<exists>pre c post. s = pre @ c # post \<and> (\<forall>d\<in>set pre. dot d) \<and> Q c)"
proof -
  have "matchRe (Seq (AtLeast 0 dot) (Class Q)) s \<noteq> [] \<longleftrightarrow>
          (\<exists>m\<in>set (repeatClass 0 dot s). \<exists>c post. m = c # post \<and> Q c)"
    unfolding seq_nonempty class_nonempty by simp
  also have "\<dots> \<longleftrightarrow> (\<exists>m pre. s = pre @ m \<and> (\<forall>d\<in>set pre. dot d) \<and> (\<exists>c post. m = c # post \<and> Q c))"
    unfolding Bex_def repeatClass_iff by auto
  also have "\<dots> \<longleftrightarrow> (\<exists>pre c post. s = pre @ c # post \<and> (\<forall>d\<in>set pre. dot d) \<and> Q c)"
    by blast
  finally show ?thesis .
qed

lemma passwordChar_dot: "passwordChar c \<Longrightarrow> dot c"
  by (auto simp: passwordChar_def dot_def isLetter_def isDigit_def inRange_def)

lemma lookahead_in_password:
  assumes "\<forall>c\<in>set s. passwordChar c"
  shows "matchRe (Seq (AtLeast 0 dot) (Class Q)) s \<noteq> [] \<longleftrightarrow> (\<exists>c\<in>set s. Q c)"
proof
  assume "matchRe (Seq (AtLeast 0 dot) (Class Q)) s \<noteq> []"
  then obtain pre c post where "s = pre @ c # post" "Q c"
    unfolding lookahead_contains by blast
  then show "\<exists>c\<in>set s. Q c" by auto
next
  assume "\<exists>c\<in>set s. Q c"
  then obtain c where "c \<in> set s" "Q c" by blast
  then obtain pre post where s: "s = pre @ c # post" by (meson split_list)
  then have "\<forall>d\<in>set pre. dot d" using assms passwordChar_dot by auto
  with s \<open>Q c\<close> show "matchRe (Seq (AtLeast 0 dot) (Class Q)) s \<noteq> []"
    unfolding lookahead_contains by blast
qed

lemma body_matches:
  "matchRe (Seq (AtLeast 6 passwordChar) EndOfInput) s \<noteq> [] \<longleftrightarrow>
     6 \<le> length s \<and> (\<forall>c\<in>set s. passwordChar c)"
proof -
  have "matchRe (Seq (AtLeast 6 passwordChar) EndOfInput) s \<noteq> [] \<longleftrightarrow>
          [] \<in> set (repeatClass 6 passwordChar s)"
    unfolding seq_nonempty by (auto split: if_splits)
  then show ?thesis by (simp add: repeatClass_whole)
qed

subsection \<open>Filters\<close>





subsection \<open>Users, registration and updates\<close>

lemma toLowerChar_asciiLower: "toLowerChar (asciiLowerChar c) = toLowerChar c"
  by (cases c) (auto simp: toLowerChar_def asciiLowerChar_def isUpper_def inRange_def)

lemma equalUpToAsciiCase_lower:
  assumes "equalUpToAsciiCase a b"
  shows "toLowerCase a = toLowerCase b"
proof -
  have l: "map toLowerChar (map asciiLowerChar s) = toLowerCase s" for s
    by (simp add: toLowerCase_def toLowerChar_asciiLower)
  from assms have "map toLowerChar (map asciiLowerChar a) = map toLowerChar (map asciiLowerChar b)"
    unfolding equalUpToAsciiCase_def by (rule arg_cong)
  then show ?thesis unfolding l .
qed

lemma initializeUsers_Doc: "initializeUsersFile (Doc us) = Doc us"
  by (simp add: initializeUsersFile_def readTyped_def)

lemma readTyped_initializeUsers:
  "readTyped (initializeUsersFile f) = Inr (storedUsers f)"
  by (cases f) (simp_all add: readTyped_def initializeUsersFile_def storedUsers_def writeTyped_def)

lemma find_None_iff': "find P xs = None \<longleftrightarrow> (\<forall>x\<in>set xs. \<not> P x)"
  by (induction xs) auto

lemma valid_samples:
  "isValidEmail ''a@x.com''" "isValidEmail ''A@X.com''" "isValidPassword ''abc123''"
  "\<not> isValidPassword ''abcdef''"
  by code_simp+

lemma ascii_case_sample: "equalUpToAsciiCase ''a@x.com'' ''A@X.com''"
  by (simp add: equalUpToAsciiCase_def asciiLowerChar_def inRange_def)

lemma register_alice:
  "registerUser sampleRuntime aliceBody (Doc []) =
     (respond 201 True ''User registered successfully''
        (Some (UserPayload
           [(''id'', ''id-1''), (''username'', ''alice''), (''email'', ''a@x.com''),
            (''createdAt'', ''2024-05-01T10:00:00.000Z''), (''updatedAt'', ''2024-05-01T10:00:00.000Z'')])),
      Doc [alice])"
  using valid_samples
  by (simp add: registerUser_def aliceBody_def truthy_def initializeUsers_Doc Let_def readTyped_def
      sampleRuntime_def alice_def userWithoutPassword_def userObject_def omit_def writeTyped_def
      trim_def isWhiteSpace_def inRange_def toLowerCase_def toLowerChar_def isUpper_def)

lemma digitChar_digit:
  assumes "d < 10"
  shows "isDigit (digitChar d) \<and> digitValue (digitChar d) = d"
proof -
  from assms have "d \<in> {0, 1, 2, 3, 4, 5, 6, 7, 8, 9}" by auto
  then show ?thesis
    by (auto simp: digitChar_def isDigit_def inRange_def digitValue_def)
qed

lemma natToString_digits:
  "natToString n \<noteq> [] \<and> (\<forall>c\<in>set (natToString n). isDigit c)"
proof (induction n rule: natToString.induct)
  case (1 n)
  show ?case
  proof (cases "n < 10")
    case True
    then show ?thesis using digitChar_digit[of n] by (simp add: natToString.simps[of n])
  next
    case False
    then show ?thesis using 1 digitChar_digit[of "n mod 10"]
      by (simp add: natToString.simps[of n])
  qed
qed

lemma decimalValue_snoc: "decimalValue (ds @ [c]) = 10 * decimalValue ds + digitValue c"
  by (simp add: decimalValue_def)

lemma decimalValue_natToString: "decimalValue (natToString n) = n"
proof (induction n rule: natToString.induct)
  case (1 n)
  show ?case
  proof (cases "n < 10")
    case True
    then show ?thesis using digitChar_digit[of n]
      by (simp add: natToString.simps[of n] decimalValue_def)
  next
    case False
    then show ?thesis using 1 digitChar_digit[of "n mod 10"]
      by (simp add: natToString.simps[of n] decimalValue_snoc)
  qed
qed

lemma isDigit_not_space: "isDigit c \<Longrightarrow> \<not> isWhiteSpace c \<and> c \<noteq> CHR ''-'' \<and> c \<noteq> CHR ''+''"
  by (auto simp: isDigit_def isWhiteSpace_def inRange_def)

lemma parseInt_digits:
  assumes "ds \<noteq> []" "\<forall>c\<in>set ds. isDigit c"
  shows "parseInt ds = Num (int (decimalValue ds))"
    and "parseInt (CHR ''-'' # ds) = Num (- int (decimalValue ds))"
proof -
  obtain c cs where ds: "ds = c # cs" using assms(1) by (cases ds) auto
  have c: "isDigit c" using assms(2) ds by simp
  have tw: "takeWhile isDigit ds = ds" using assms(2) by (simp add: takeWhile_eq_all_conv)
  show "parseInt ds = Num (int (decimalValue ds))"
    using isDigit_not_space[OF c] assms(1) tw[unfolded ds] by (simp add: parseInt_def ds Let_def)
  have "\<not> isWhiteSpace CHR ''-''" by (simp add: isWhiteSpace_def inRange_def)
  then show "parseInt (CHR ''-'' # ds) = Num (- int (decimalValue ds))"
    using assms(1) by (simp add: parseInt_def Let_def tw)
qed

lemma parseInt_numberToString: "parseInt (numberToString n) = Num n"
  using parseInt_digits[of "natToString (nat n)"] parseInt_digits[of "natToString (nat (- n))"]
        natToString_digits decimalValue_natToString
  by (simp add: numberToString_def)

lemma mergePatch_fields: "mergePatch old body = mergedBook old body"
  by (simp add: mergePatch_def mergedBook_def Let_def parseInt_numberToString)

lemma mergeUserPatch_fields: "mergeUserPatch old body now = mergedUser old body now"
  by (simp add: mergeUserPatch_def mergedUser_def Let_def)

lemma status_respond: "status (respond n ok msg d) = n"
  by (simp add: respond_def)

lemma updateBook_success:
  assumes "status (fst (updateBook currentYear bookId caller body store)) = 200"
  shows "\<exists>books i. store = Doc books \<and> findIndex (\<lambda>b. id_book b = bookId) books = Some i \<and>
           updateBook currentYear bookId caller body store =
             (respond 200 True ''Book updated successfully''
                (Some (BookPayload (mergedBook (books ! i) body))),
              Doc (books[i := mergedBook (books ! i) body]))"
proof -
  have rd: "readTyped (initializeBooksFile store) = Inr (storedBooks store)"
    by (rule readTyped_initializeBooks)
  from assms obtain i where i: "findIndex (\<lambda>b. id_book b = bookId) (storedBooks store) = Some i"
    by (cases "findIndex (\<lambda>b. id_book b = bookId) (storedBooks store)")
       (auto simp: updateBook_def Let_def rd status_respond internalError_def split: if_splits)
  then have "storedBooks store \<noteq> []" by auto
  then obtain books where st: "store = Doc books"
    by (cases store) (simp_all add: storedBooks_def)
  then have sb: "storedBooks store = books" by (simp add: storedBooks_def)
  have rd': "readTyped (Doc books) = Inr books" by (simp add: readTyped_def)
  from assms have conds:
    "bookId \<noteq> [] \<and> truthy caller \<and> userId (books ! i) = the caller \<and>
     \<not> (truthyNum (p_publishedYear body) \<and>
        (the (p_publishedYear body) < 1000 \<or> the (p_publishedYear body) > currentYear)) \<and>
     \<not> badLength (p_title body) 200 \<and> \<not> badLength (p_author body) 100 \<and>
     \<not> badLength (p_genre body) 50"
    using i[unfolded sb]
    by (simp add: st updateBook_def Let_def status_respond initializeBooks_Doc rd' split: if_splits)
  then have c: "bookId \<noteq> []" "truthy caller" "userId (books ! i) = the caller"
     "\<not> (truthyNum (p_publishedYear body) \<and>
        (the (p_publishedYear body) < 1000 \<or> the (p_publishedYear body) > currentYear))"
     "\<not> badLength (p_title body) 200" "\<not> badLength (p_author body) 100"
     "\<not> badLength (p_genre body) 50"
    by simp_all
  have i': "findIndex (\<lambda>b. id_book b = bookId) books = Some i"
    using i by (simp only: sb)
  have res: "updateBook currentYear bookId caller body store =
             (respond 200 True ''Book updated successfully''
                (Some (BookPayload (mergedBook (books ! i) body))),
              Doc (books[i := mergedBook (books ! i) body]))"
    by (simp add: st updateBook_def Let_def initializeBooks_Doc rd' mergePatch_fields writeTyped_def
          i' c split del: if_split)
  show ?thesis
  proof (rule exI[of _ books], rule exI[of _ i], intro conjI)
    show "store = Doc books" by (rule st)
    show "findIndex (\<lambda>b. id_book b = bookId) books = Some i" by (rule i')
    show "updateBook currentYear bookId caller body store =
             (respond 200 True ''Book updated successfully''
                (Some (BookPayload (mergedBook (books ! i) body))),
              Doc (books[i := mergedBook (books ! i) body]))" by (rule res)
  qed
qed

lemma updateUser_success:
  assumes "status (fst (updateUser rt userIdParam body store)) = 200"
  shows "\<exists>users i. store = Doc users \<and> findIndex (\<lambda>u. id_user u = userIdParam) users = Some i \<and>
           updateUser rt userIdParam body store =
             (respond 200 True ''User updated successfully''
                (Some (UserPayload (userWithoutPassword (mergedUser (users ! i) body (isoNow rt 0))))),
              Doc (users[i := mergedUser (users ! i) body (isoNow rt 0)]))"
proof -
  have rd: "readTyped (initializeUsersFile store) = Inr (storedUsers store)"
    by (rule readTyped_initializeUsers)
  from assms obtain i where i: "findIndex (\<lambda>u. id_user u = userIdParam) (storedUsers store) = Some i"
    by (cases "findIndex (\<lambda>u. id_user u = userIdParam) (storedUsers store)")
       (auto simp: updateUser_def Let_def rd status_respond internalError_def split: if_splits)
  then have "storedUsers store \<noteq> []" by auto
  then obtain users where st: "store = Doc users"
    by (cases store) (simp_all add: storedUsers_def)
  then have sb: "storedUsers store = users" by (simp add: storedUsers_def)
  have rd': "readTyped (Doc users) = Inr users" by (simp add: readTyped_def)
  have i': "findIndex (\<lambda>u. id_user u = userIdParam) users = Some i"
    using i by (simp only: sb)
  from assms have conds:
    "userIdParam \<noteq> [] \<and> \<not> (truthy (u_email body) \<and> \<not> isValidEmail (the (u_email body))) \<and>
     \<not> ((truthy (u_username body) \<or> truthy (u_email body)) \<and>
        find (isDuplicateOf body i) (zip users [0 ..< length users]) \<noteq> None)"
    using i'
    by (simp add: st updateUser_def Let_def status_respond initializeUsers_Doc rd' split: if_splits)
  then have c: "userIdParam \<noteq> []"
     "\<not> (truthy (u_email body) \<and> \<not> isValidEmail (the (u_email body)))"
     "\<not> ((truthy (u_username body) \<or> truthy (u_email body)) \<and>
        find (isDuplicateOf body i) (zip users [0 ..< length users]) \<noteq> None)"
    by simp_all
  have res: "updateUser rt userIdParam body store =
             (respond 200 True ''User updated successfully''
                (Some (UserPayload (userWithoutPassword (mergedUser (users ! i) body (isoNow rt 0))))),
              Doc (users[i := mergedUser (users ! i) body (isoNow rt 0)]))"
    unfolding st updateUser_def Let_def initializeUsers_Doc rd'
    by (simp only: c i' if_False if_True option.case sum.case simp_thms mergeUserPatch_fields
          writeTyped_def)
  show ?thesis
  proof (rule exI[of _ users], rule exI[of _ i], intro conjI)
    show "store = Doc users" by (rule st)
    show "findIndex (\<lambda>u. id_user u = userIdParam) users = Some i" by (rule i')
    show "updateUser rt userIdParam body store =
             (respond 200 True ''User updated successfully''
                (Some (UserPayload (userWithoutPassword (mergedUser (users ! i) body (isoNow rt 0))))),
              Doc (users[i := mergedUser (users ! i) body (isoNow rt 0)]))" by (rule res)
  qed
qed

lemma trim_samples:
  "trim '' Herbert '' = ''Herbert''" "trim '' Alice B '' = ''Alice B''"
  by (simp_all add: trim_def isWhiteSpace_def inRange_def)

lemma update_dune:
  "updateBook 2024 ''b1'' (Some ''u1'') emptyTitle (Doc [dune, emma]) =
     (respond 200 True ''Book updated successfully''
        (Some (BookPayload (dune\<lparr>author := ''Herbert''\<rparr>))),
      Doc [dune\<lparr>author := ''Herbert''\<rparr>, emma])"
  by (simp add: updateBook_def initializeBooks_Doc readTyped_def Let_def truthy_def truthyNum_def
      emptyTitle_def badLength_def trim_samples dune_def mergePatch_def writeTyped_def)

lemma update_alice:
  "updateUser sampleRuntime ''id-1'' renameAlice (Doc [alice]) =
     (respond 200 True ''User updated successfully''
        (Some (UserPayload
           [(''id'', ''id-1''), (''username'', ''Alice B''), (''email'', ''a@x.com''),
            (''createdAt'', ''2024-05-01T10:00:00.000Z''), (''updatedAt'', ''2024-05-01T10:00:00.000Z'')])),
      Doc [alice\<lparr>username := ''Alice B''\<rparr>])"
  by (simp add: updateUser_def initializeUsers_Doc readTyped_def Let_def truthy_def renameAlice_def
      alice_def sampleRuntime_def isDuplicateOf_def mergeUserPatch_def trim_samples writeTyped_def
      userWithoutPassword_def userObject_def omit_def)

lemma responseUsers_respond:
  "responseUsers (respond n ok msg None) = []"
  "responseUsers (respond n ok msg (Some (UserPayload obj))) = [obj]"
  "responseUsers (respond n ok msg (Some (UsersPayload objs k))) = objs"
  "responseUsers (respond n ok msg (Some (AuthPayload obj token))) = [obj]"
  "responseUsers internalError = []"
  by (simp_all add: responseUsers_def respond_def internalError_def)

lemma userWithoutPassword_keys:
  "map fst (userWithoutPassword u) = [''id'', ''username'', ''email'', ''createdAt'', ''updatedAt'']"
  by (simp add: userWithoutPassword_def userObject_def omit_def)

lemma omit_absent: "key \<notin> fst ` set (omit key obj)"
  by (auto simp: omit_def)

lemma omit_keeps: "k \<noteq> key \<Longrightarrow> map_of (omit key obj) k = map_of obj k"
  by (induction obj) (auto simp: omit_def)

lemma registerUser_users:
  "set (responseUsers (fst (registerUser rt body store))) \<subseteq> range userWithoutPassword"
  unfolding registerUser_def Let_def
  by (simp add: responseUsers_respond split: sum.split option.split io_error.split)

lemma loginUser_users:
  "set (responseUsers (fst (loginUser rt body store))) \<subseteq> range userWithoutPassword"
  unfolding loginUser_def Let_def
  by (simp add: responseUsers_respond split: sum.split option.split)

lemma getAllUsers_users:
  "set (responseUsers (fst (getAllUsers store))) \<subseteq> range userWithoutPassword"
  unfolding getAllUsers_def Let_def
  by (auto simp add: responseUsers_respond split: sum.split option.split)

lemma getUserById_users:
  "set (responseUsers (fst (getUserById uid store))) \<subseteq> range userWithoutPassword"
  unfolding getUserById_def Let_def
  by (simp add: responseUsers_respond split: sum.split option.split)

lemma updateUser_users:
  "set (responseUsers (fst (updateUser rt uid body store))) \<subseteq> range userWithoutPassword"
  unfolding updateUser_def Let_def
  by (simp add: responseUsers_respond split: sum.split option.split)

lemma login_alice:
  "fst (loginUser sampleRuntime aliceLogin (Doc [alice])) =
     respond 200 True ''Login successful''
       (Some (AuthPayload (userWithoutPassword alice) ''token:id-1''))"
  by (simp add: loginUser_def initializeUsersFile_def readTyped_def Let_def truthy_def aliceLogin_def
      sameEmail_def alice_def sampleRuntime_def toLowerCase_def toLowerChar_def isUpper_def inRange_def)

subsection \<open>Serialising and parsing\<close>



lemma hexValue_hexDigitChar:
  assumes "d < 16"
  shows "hexValue (hexDigitChar d) = Some d"
proof -
  from assms have "d \<in> {0, 1, 2, 3, 4, 5, 6, 7, 8, 9, 10, 11, 12, 13, 14, 15}" by simp arith
  then show ?thesis
    by (auto simp: hexValue_def hexDigitChar_def isDigit_def inRange_def)
qed

lemma hexValue_zero: "hexValue CHR ''0'' = Some 0"
  by (simp add: hexValue_def isDigit_def inRange_def)

lemma unicodeEscape_control:
  assumes "(of_char c :: nat) < 32"
  shows "unicodeEscape CHR ''0'' CHR ''0'' (hexDigitChar (of_char c div 16)) (hexDigitChar (of_char c mod 16)) = Some c"
proof -
  have d: "(of_char c :: nat) div 16 < 16" "(of_char c :: nat) mod 16 < 16" using assms by auto
  have "char_of (16 * ((of_char c :: nat) div 16) + of_char c mod 16) = c"
    by simp
  then show ?thesis
    by (simp add: unicodeEscape_def hexValue_zero hexValue_hexDigitChar[OF d(1)] hexValue_hexDigitChar[OF d(2)])
qed

lemma parse_escapeChar:
  "parseStringChars (escapeChar c @ t) = map_option (\<lambda>(s, u). (c # s, u)) (parseStringChars t)"
proof -
  consider (bs) "c = CHR 0x08" | (tab) "c = CHR 0x09" | (lf) "c = CHR 0x0A" | (ff) "c = CHR 0x0C"
    | (cr) "c = CHR 0x0D" | (quote) "c = CHR 0x22" | (backslash) "c = CHR 0x5C"
    | (control) "c \<notin> {CHR 0x08, CHR 0x09, CHR 0x0A, CHR 0x0C, CHR 0x0D, CHR 0x22, CHR 0x5C}" "(of_char c :: nat) < 32"
    | (plain) "c \<notin> {CHR 0x08, CHR 0x09, CHR 0x0A, CHR 0x0C, CHR 0x0D, CHR 0x22, CHR 0x5C}" "\<not> (of_char c :: nat) < 32"
    by blast
  then show ?thesis
  proof cases
    case control
    then show ?thesis
      using unicodeEscape_control[OF control(2)]
      by (simp add: escapeChar_def)
  next
    case plain
    then show ?thesis by (simp add: escapeChar_def)
  qed (simp_all add: escapeChar_def unescape_def)
qed

lemma parse_escaped:
  "parseStringChars (concat (map escapeChar s) @ CHR 0x22 # rest) = Some (s, rest)"
  by (induction s) (simp_all add: parse_escapeChar)

lemma parse_quoted:
  "parseStringChars (tl (quoteJSONString s) @ rest) = Some (s, rest)"
  by (simp add: quoteJSONString_def parse_escaped)









































section \<open>The claims\<close>

subsection \<open>C1: only the owner updates or deletes a book\<close>

text \<open>
  Claim C1. A request to update or to delete a book reaches the handler with the route
  parameter \<open>bookId\<close> (never empty) and the user id \<open>u\<close> of the verified token. When the
  book the id designates is stored with an owner other than \<open>u\<close>, both handlers answer
  403 and leave the collection as it was, whatever the request body holds.
\<close>

theorem owner_mismatch_rejected:
  assumes "bookId \<noteq> []" and "caller = Some u" and "u \<noteq> []"
    and "find (\<lambda>b. id_book b = bookId) books = Some b" and "userId b \<noteq> u"
  shows "updateBook currentYear bookId caller body (Doc books) =
           (respond 403 False ''You can only update your own books'' None, Doc books) \<and>
         deleteBook bookId caller (Doc books) =
           (respond 403 False ''You can only delete your own books'' None, Doc books)"
proof -
  obtain i where i: "findIndex (\<lambda>b. id_book b = bookId) books = Some i" "books ! i = b"
    using find_findIndex[OF assms(4)] by blast
  have rd: "readTyped (Doc books) = Inr books" by (simp add: readTyped_def)
  have tr: "truthy caller" "the caller = u" using assms(2,3) by (simp_all add: truthy_def)
  show ?thesis
    using assms(1,5) i tr rd
    by (simp add: updateBook_def deleteBook_def initializeBooks_Doc Let_def)
qed

theorem owner_mismatch_rejected_witness:
  "updateBook 2024 ''b1'' (Some ''u2'')
     \<lparr>p_title = Some ''Mine'', p_author = None, p_genre = None, p_publishedYear = None\<rparr>
     (Doc [dune, emma]) =
     (respond 403 False ''You can only update your own books'' None, Doc [dune, emma]) \<and>
   deleteBook ''b1'' (Some ''u2'') (Doc [dune, emma]) =
     (respond 403 False ''You can only delete your own books'' None, Doc [dune, emma])"
  using owner_mismatch_rejected[of "''b1''" "Some ''u2''" "''u2''" "[dune, emma]" dune 2024]
  by (simp add: dune_def)

subsection \<open>C2: length of the page\<close>



subsection \<open>C3: the page flags\<close>



subsection \<open>C7: page and limit that are not numbers\<close>

text \<open>
  Claim C7 says that a page or a limit that is not a positive integer is rejected with a
  validation error. The guard of both listings is \<open>pageNumber < 1 || limitNumber < 1\<close>;
  \<open>parseInt\<close> of a text without digits is NaN and both comparisons are then false, so the
  request passes the guard: with \<open>page=abc\<close> (or \<open>limit=abc\<close>) the answer is the success
  response 200 with an empty slice, not the response 400.
\<close>

theorem non_numeric_page_accepted:
  "fst (getAllBooks (noFilters (Some ''abc'') None) store) =
     respond 200 True ''Books retrieved successfully''
       (Some (BooksPayload []
          \<lparr>currentPage = NaN,
           totalPages = math_ceil_div (Num (int (length (storedBooks store)))) (Num 10),
           totalBooks = length (storedBooks store),
           hasNextPage = False, hasPreviousPage = False\<rparr>)) \<and>
   fst (searchBooksByGenre ''Fiction'' None (Some ''abc'') store) =
     respond 200 True ''Books in genre 'Fiction' retrieved successfully''
       (Some (BooksPayload []
          \<lparr>currentPage = Num 1, totalPages = NaN,
           totalBooks = length (filter (genreMatches ''Fiction'') (storedBooks store)),
           hasNextPage = False, hasPreviousPage = False\<rparr>))"
  by (simp add: getAllBooks_def searchBooksByGenre_def noFilters_def orDefault_def parseInt_samples
      Let_def readTyped_initializeBooks paginate_def applyFilters_def truthy_def slice_def clampIndex_def)

theorem non_numeric_page_accepted_witness:
  "status (fst (getAllBooks (noFilters (Some ''abc'') None) (Doc [dune, emma, hamlet]))) = 200 \<and>
   status (fst (searchBooksByGenre ''Fiction'' None (Some ''abc'') (Doc [dune, emma, hamlet]))) = 200"
  using non_numeric_page_accepted[of "Doc [dune, emma, hamlet]"]
  by (simp add: respond_def)

subsection \<open>C6: the password rule\<close>

text \<open>
  Claim C6. The password validator accepts a string exactly when it has at least six
  characters, one of them a letter A .. Z or a .. z, one of them a digit, and all of them
  letters, digits or one of the symbols \<open>@ $ ! % * # ? &\<close>. So \<open>abc123\<close> is accepted,
  \<open>abcdef\<close> and \<open>123456\<close> are not.
\<close>

theorem password_rule:
  "isValidPassword p \<longleftrightarrow>
     6 \<le> length p \<and> (\<exists>c\<in>set p. isLetter c) \<and> (\<exists>c\<in>set p. isDigit c) \<and>
     (\<forall>c\<in>set p. isLetter c \<or> isDigit c \<or> c \<in> set ''@$!%*#?&'')"
proof -
  let ?A = "Seq (AtLeast 0 dot) (Class isLetter)"
  let ?B = "Seq (AtLeast 0 dot) (Class isDigit)"
  let ?C = "Seq (AtLeast 6 passwordChar) EndOfInput"
  have "isValidPassword p \<longleftrightarrow> matchRe ?A p \<noteq> [] \<and> matchRe ?B p \<noteq> [] \<and> matchRe ?C p \<noteq> []"
    unfolding isValidPassword_def test_def passwordRegex_def lookahead_seq ..
  also have "\<dots> \<longleftrightarrow> 6 \<le> length p \<and> (\<forall>c\<in>set p. passwordChar c) \<and>
                      (\<exists>c\<in>set p. isLetter c) \<and> (\<exists>c\<in>set p. isDigit c)"
    using lookahead_in_password[of p isLetter] lookahead_in_password[of p isDigit] body_matches[of p]
    by blast
  finally show ?thesis unfolding passwordChar_def by blast
qed

theorem password_rule_witness:
  "isValidPassword ''abc123'' \<and> \<not> isValidPassword ''abcdef'' \<and> \<not> isValidPassword ''123456''"
  using password_rule[of "''abc123''"] password_rule[of "''abcdef''"] password_rule[of "''123456''"]
  by (simp add: isLetter_def isDigit_def inRange_def)

subsection \<open>C4: the filters\<close>




subsection \<open>C5: registration with an email or a username already taken\<close>

text \<open>
  Claim C5, amended. When the email or the username of a registration request equals that
  of a stored user up to the case of ASCII letters, no record is inserted, whatever else
  the request holds. The answer is the conflict 409 when the request passes the field
  checks (all three fields not empty, email and password of the right shape, username of
  3 to 20 characters), since those checks come first; otherwise it is a validation
  error 400.
\<close>

theorem duplicate_registration_conflicts:
  assumes "u \<in> set users"
      and "r_email body = Some e" and "r_username body = Some n"
      and "equalUpToAsciiCase (email u) e \<or> equalUpToAsciiCase (username u) n"
  shows "snd (registerUser rt body (Doc users)) = Doc users \<and>
         (if validRegistration body
          then fst (registerUser rt body (Doc users)) =
                 respond 409 False ''User with this email or username already exists'' None
          else status (fst (registerUser rt body (Doc users))) = 400)"
proof -
  have dup: "sameEmail e u \<or> sameUsername n u"
    using assms(4) equalUpToAsciiCase_lower by (auto simp: sameEmail_def sameUsername_def)
  then have "find (\<lambda>u. sameEmail (the (r_email body)) u \<or> sameUsername (the (r_username body)) u) users \<noteq> None"
    using assms(1,2,3) by (auto simp: find_None_iff')
  then obtain x where x: "find (\<lambda>u. sameEmail (the (r_email body)) u \<or> sameUsername (the (r_username body)) u) users = Some x"
    by blast
  have rd: "readTyped (Doc users) = Inr users" by (simp add: readTyped_def)
  show ?thesis
  proof (cases "validRegistration body")
    case True
    then show ?thesis
      using x rd by (simp add: registerUser_def validRegistration_def initializeUsers_Doc Let_def)
  next
    case False
    then show ?thesis
      using x rd
      by (auto simp: registerUser_def validRegistration_def initializeUsers_Doc Let_def respond_def)
  qed
qed

theorem duplicate_registration_conflicts_witness:
  "alice \<in> set [alice] \<and> equalUpToAsciiCase (email alice) ''A@X.com'' \<and>
   validRegistration aliceAgain \<and>
   snd (registerUser sampleRuntime aliceBody (Doc [])) = Doc [alice] \<and>
   registerUser sampleRuntime aliceAgain (Doc [alice]) =
     (respond 409 False ''User with this email or username already exists'' None, Doc [alice])"
proof -
  have v: "validRegistration aliceAgain"
    using valid_samples by (simp add: validRegistration_def aliceAgain_def truthy_def)
  have e: "equalUpToAsciiCase (email alice) ''A@X.com''"
    using ascii_case_sample by (simp add: alice_def)
  have "snd (registerUser sampleRuntime aliceAgain (Doc [alice])) = Doc [alice] \<and>
         (if validRegistration aliceAgain
          then fst (registerUser sampleRuntime aliceAgain (Doc [alice])) =
                 respond 409 False ''User with this email or username already exists'' None
          else status (fst (registerUser sampleRuntime aliceAgain (Doc [alice]))) = 400)"
    by (rule duplicate_registration_conflicts[of alice "[alice]" aliceAgain "''A@X.com''" "''alicia''"])
       (simp_all add: aliceAgain_def e)
  then show ?thesis using v e register_alice by (simp add: prod_eq_iff)
qed

text \<open>
  Claim C5 as worded (every such request is answered with a conflict) fails for a request
  whose password has no digit: the field checks reject it before the stored users are read.
\<close>

theorem invalid_duplicate_not_conflict:
  "equalUpToAsciiCase (email alice) (the (r_email aliceNoDigit)) \<and>
   registerUser sampleRuntime aliceNoDigit (Doc [alice]) =
     (respond 400 False
        ''Password must be at least 6 characters long and contain at least one letter and one number''
        None, Doc [alice])"
  using valid_samples ascii_case_sample
  by (simp add: registerUser_def aliceNoDigit_def truthy_def initializeUsers_Doc Let_def alice_def)

subsection \<open>C8: merging a patch\<close>

text \<open>
  Claim C8, amended. When an update succeeds, the stored record at the position of the
  identifier is replaced by the old record merged with the patch, the rest of the
  collection is kept, and the response carries the merged record. In the merge a text
  field of the patch replaces the old value only when it is present and not empty, and it
  is stored trimmed (an email lower-cased and trimmed); the year replaces the old one only
  when it is present and not 0; every other field, and the identifier, the owner, the
  password hash and the creation time, keep their old value; for a user \<open>updatedAt\<close> is
  the time of the update.
\<close>

theorem patch_merges_non_empty_fields:
  "(status (fst (updateBook currentYear bookId caller body store)) = 200 \<longrightarrow>
      (\<exists>books i. store = Doc books \<and> findIndex (\<lambda>b. id_book b = bookId) books = Some i \<and>
           updateBook currentYear bookId caller body store =
             (respond 200 True ''Book updated successfully''
                (Some (BookPayload (mergedBook (books ! i) body))),
              Doc (books[i := mergedBook (books ! i) body])))) \<and>
   (status (fst (updateUser rt userIdParam ubody ustore)) = 200 \<longrightarrow>
      (\<exists>users i. ustore = Doc users \<and> findIndex (\<lambda>u. id_user u = userIdParam) users = Some i \<and>
           updateUser rt userIdParam ubody ustore =
             (respond 200 True ''User updated successfully''
                (Some (UserPayload (userWithoutPassword (mergedUser (users ! i) ubody (isoNow rt 0))))),
              Doc (users[i := mergedUser (users ! i) ubody (isoNow rt 0)]))))"
proof (intro conjI impI)
  assume "status (fst (updateBook currentYear bookId caller body store)) = 200"
  then show "\<exists>books i. store = Doc books \<and> findIndex (\<lambda>b. id_book b = bookId) books = Some i \<and>
           updateBook currentYear bookId caller body store =
             (respond 200 True ''Book updated successfully''
                (Some (BookPayload (mergedBook (books ! i) body))),
              Doc (books[i := mergedBook (books ! i) body]))"
    by (rule updateBook_success)
next
  assume "status (fst (updateUser rt userIdParam ubody ustore)) = 200"
  then show "\<exists>users i. ustore = Doc users \<and> findIndex (\<lambda>u. id_user u = userIdParam) users = Some i \<and>
           updateUser rt userIdParam ubody ustore =
             (respond 200 True ''User updated successfully''
                (Some (UserPayload (userWithoutPassword (mergedUser (users ! i) ubody (isoNow rt 0))))),
              Doc (users[i := mergedUser (users ! i) ubody (isoNow rt 0)]))"
    by (rule updateUser_success)
qed

theorem patch_merges_non_empty_fields_witness:
  "status (fst (updateBook 2024 ''b1'' (Some ''u1'') emptyTitle (Doc [dune, emma]))) = 200 \<and>
   status (fst (updateUser sampleRuntime ''id-1'' renameAlice (Doc [alice]))) = 200 \<and>
   (\<exists>books i. Doc [dune, emma] = Doc books \<and> findIndex (\<lambda>b. id_book b = ''b1'') books = Some i \<and>
      updateBook 2024 ''b1'' (Some ''u1'') emptyTitle (Doc [dune, emma]) =
        (respond 200 True ''Book updated successfully''
           (Some (BookPayload (mergedBook (books ! i) emptyTitle))),
         Doc (books[i := mergedBook (books ! i) emptyTitle]))) \<and>
   (\<exists>users i. Doc [alice] = Doc users \<and> findIndex (\<lambda>u. id_user u = ''id-1'') users = Some i \<and>
      updateUser sampleRuntime ''id-1'' renameAlice (Doc [alice]) =
        (respond 200 True ''User updated successfully''
           (Some (UserPayload (userWithoutPassword
              (mergedUser (users ! i) renameAlice (isoNow sampleRuntime 0))))),
         Doc (users[i := mergedUser (users ! i) renameAlice (isoNow sampleRuntime 0)]))) \<and>
   mergedBook dune emptyTitle = dune\<lparr>author := ''Herbert''\<rparr> \<and>
   mergedUser alice renameAlice (isoNow sampleRuntime 0) = alice\<lparr>username := ''Alice B''\<rparr>"
proof -
  have sb: "status (fst (updateBook 2024 ''b1'' (Some ''u1'') emptyTitle (Doc [dune, emma]))) = 200"
    by (simp only: update_dune fst_conv status_respond)
  have su: "status (fst (updateUser sampleRuntime ''id-1'' renameAlice (Doc [alice]))) = 200"
    by (simp only: update_alice fst_conv status_respond)
  note inst = patch_merges_non_empty_fields[of 2024 "''b1''" "Some ''u1''" emptyTitle "Doc [dune, emma]"
                sampleRuntime "''id-1''" renameAlice "Doc [alice]"]
  note eb = inst[THEN conjunct1, THEN mp, OF sb]
  note eu = inst[THEN conjunct2, THEN mp, OF su]
  have mb: "mergedBook dune emptyTitle = dune\<lparr>author := ''Herbert''\<rparr>"
    by (simp add: mergedBook_def emptyTitle_def truthy_def truthyNum_def trim_samples dune_def)
  have mu: "mergedUser alice renameAlice (isoNow sampleRuntime 0) = alice\<lparr>username := ''Alice B''\<rparr>"
    by (simp add: mergedUser_def renameAlice_def truthy_def trim_samples alice_def sampleRuntime_def)
  from sb su eb eu mb mu show ?thesis by (intro conjI)
qed

text \<open>
  Claim C8 as worded (a present field replaces the old value even when it is the empty
  string, and by the value of the patch) fails for a patch with an empty title and an
  author with blanks around it: the update succeeds, the title stays and the author is
  stored trimmed.
\<close>

theorem empty_title_not_replaced:
  "p_title emptyTitle = Some [] \<and>
   updateBook 2024 ''b1'' (Some ''u1'') emptyTitle (Doc [dune, emma]) =
     (respond 200 True ''Book updated successfully''
        (Some (BookPayload (dune\<lparr>author := ''Herbert''\<rparr>))),
      Doc [dune\<lparr>author := ''Herbert''\<rparr>, emma]) \<and>
   replaceSupplied dune emptyTitle = dune\<lparr>title := [], author := '' Herbert ''\<rparr> \<and>
   dune\<lparr>author := ''Herbert''\<rparr> \<noteq> replaceSupplied dune emptyTitle"
  using update_dune
  by (simp add: replaceSupplied_def emptyTitle_def dune_def)

subsection \<open>C10: no password in a response\<close>

text \<open>
  Claim C10. Every user object in a response of registration, login, the list of users,
  the lookup by id and the update of a user is a stored (or new) user with the property
  \<open>password\<close> left out: it has no such property and agrees with the user on every other.
  Responses that are not a success carry no user object at all.
\<close>

theorem responses_without_password:
  "\<forall>r \<in> {fst (registerUser rt rbody store), fst (loginUser rt lbody store),
          fst (getAllUsers store), fst (getUserById uid store),
          fst (updateUser rt uid ubody store)}.
     \<forall>obj \<in> set (responseUsers r).
       ''password'' \<notin> fst ` set obj \<and>
       (\<exists>u. obj = userWithoutPassword u \<and>
            (\<forall>k. k \<noteq> ''password'' \<longrightarrow> map_of obj k = map_of (userObject u) k))"
proof (intro ballI)
  fix r obj
  assume r: "r \<in> {fst (registerUser rt rbody store), fst (loginUser rt lbody store),
          fst (getAllUsers store), fst (getUserById uid store),
          fst (updateUser rt uid ubody store)}"
    and obj: "obj \<in> set (responseUsers r)"
  from r have "set (responseUsers r) \<subseteq> range userWithoutPassword"
    using registerUser_users loginUser_users getAllUsers_users getUserById_users updateUser_users
    by (elim insertE emptyE) simp_all
  with obj obtain u where u: "obj = userWithoutPassword u" by auto
  have "''password'' \<notin> fst ` set obj"
    unfolding u userWithoutPassword_def by (rule omit_absent)
  moreover have "\<forall>k. k \<noteq> ''password'' \<longrightarrow> map_of obj k = map_of (userObject u) k"
    unfolding u userWithoutPassword_def by (simp add: omit_keeps)
  ultimately show "''password'' \<notin> fst ` set obj \<and>
       (\<exists>u. obj = userWithoutPassword u \<and>
            (\<forall>k. k \<noteq> ''password'' \<longrightarrow> map_of obj k = map_of (userObject u) k))"
    using u by (intro conjI exI[of _ u]) simp_all
qed

theorem responses_without_password_witness:
  "responseUsers (fst (loginUser sampleRuntime aliceLogin (Doc [alice]))) = [userWithoutPassword alice] \<and>
   userWithoutPassword alice =
     [(''id'', ''id-1''), (''username'', ''alice''), (''email'', ''a@x.com''),
      (''createdAt'', ''2024-05-01T10:00:00.000Z''), (''updatedAt'', ''2024-05-01T10:00:00.000Z'')] \<and>
   ''password'' \<notin> fst ` set (userWithoutPassword alice)"
proof -
  have l: "responseUsers (fst (loginUser sampleRuntime aliceLogin (Doc [alice]))) = [userWithoutPassword alice]"
    by (simp only: login_alice responseUsers_respond)
  have m: "userWithoutPassword alice \<in> set (responseUsers (fst (loginUser sampleRuntime aliceLogin (Doc [alice]))))"
    by (simp only: l list.set insertI1)
  have r: "fst (loginUser sampleRuntime aliceLogin (Doc [alice])) \<in>
           {fst (registerUser sampleRuntime aliceBody (Doc [alice])),
            fst (loginUser sampleRuntime aliceLogin (Doc [alice])),
            fst (getAllUsers (Doc [alice])), fst (getUserById ''id-1'' (Doc [alice])),
            fst (updateUser sampleRuntime ''id-1'' renameAlice (Doc [alice]))}"
    by (intro insertI1 insertI2)
  note inst = responses_without_password[of sampleRuntime aliceBody "Doc [alice]" aliceLogin "''id-1''"
                renameAlice, THEN bspec, OF r, THEN bspec, OF m, THEN conjunct1]
  have v: "userWithoutPassword alice =
     [(''id'', ''id-1''), (''username'', ''alice''), (''email'', ''a@x.com''),
      (''createdAt'', ''2024-05-01T10:00:00.000Z''), (''updatedAt'', ''2024-05-01T10:00:00.000Z'')]"
    by (simp add: userWithoutPassword_def userObject_def omit_def alice_def)
  from l v inst show ?thesis by (intro conjI)
qed

subsection \<open>C9: reading back what was written\<close>




end
